theory Spec2Isabelle
  imports Main "HOL-Library.Word"
begin

section \<open>Values of the Terraform plugin framework\<close>

text \<open>
  The resource \<^verbatim>\<open>aap_job\<close> of \<^verbatim>\<open>internal/provider/job_resource.go\<close>. Go's \<^verbatim>\<open>int64\<close> is a
  64-bit word read as two's complement. A framework value (\<^verbatim>\<open>types.Int64\<close>,
  \<^verbatim>\<open>types.String\<close>, \<^verbatim>\<open>types.Bool\<close>, \<^verbatim>\<open>types.List\<close>, \<^verbatim>\<open>types.Map\<close>) is null, unknown or
  known; the zero value of each Go type is the null one. \<^verbatim>\<open>ValueInt64\<close>,
  \<^verbatim>\<open>ValueString\<close> and \<^verbatim>\<open>ValueBool\<close> give the Go zero value for null and unknown.
\<close>

type_synonym int64 = "64 word"

datatype tf_int64 = Int64Null | Int64Unknown | Int64Value int64

datatype tf_string = StringNull | StringUnknown | StringValue string

datatype tf_bool = BoolNull | BoolUnknown | BoolValue bool

datatype tf_list = ListNull | ListUnknown | ListValue "tf_string list"

datatype tf_map = MapNull | MapUnknown | MapValue "(string \<times> tf_string) list"

fun ValueInt64 :: "tf_int64 \<Rightarrow> int64" where
  "ValueInt64 (Int64Value v) = v"
| "ValueInt64 Int64Null = 0"
| "ValueInt64 Int64Unknown = 0"

fun IsNull :: "tf_int64 \<Rightarrow> bool" where
  "IsNull Int64Null = True"
| "IsNull Int64Unknown = False"
| "IsNull (Int64Value v) = False"

fun ValueString :: "tf_string \<Rightarrow> string" where
  "ValueString (StringValue s) = s"
| "ValueString StringNull = []"
| "ValueString StringUnknown = []"

fun ValueBool :: "tf_bool \<Rightarrow> bool" where
  "ValueBool (BoolValue b) = b"
| "ValueBool BoolNull = False"
| "ValueBool BoolUnknown = False"

text \<open>\<^verbatim>\<open>fmt.Sprintf("%d", v)\<close>: the decimal digits of a signed integer.\<close>

definition digit :: "nat \<Rightarrow> char" where
  "digit d = ''0123456789'' ! d"

function decimal :: "nat \<Rightarrow> string" where
  "decimal n = (if n < 10 then [digit n] else decimal (n div 10) @ [digit (n mod 10)])"
  by pat_completeness auto
termination
  by (relation "measure id") auto

definition Sprintf_d :: "int \<Rightarrow> string" where
  "Sprintf_d i = (if i < 0 then CHR ''-'' # decimal (nat (- i)) else decimal (nat i))"

text \<open>The \<^verbatim>\<open>String()\<close> method of \<^verbatim>\<open>types.Int64\<close>.\<close>

fun Int64_String :: "tf_int64 \<Rightarrow> string" where
  "Int64_String Int64Unknown = ''<unknown>''"
| "Int64_String Int64Null = ''<null>''"
| "Int64_String (Int64Value v) = Sprintf_d (sint v)"

section \<open>Errors and diagnostics\<close>

text \<open>
  Go errors are values. \<^verbatim>\<open>Error\<close> is an error made outside this file (transport,
  JSON decoding); the others are the two \<^verbatim>\<open>fmt.Errorf\<close> of the poller, kept with
  their arguments instead of the formatted text, and the failure of the retry
  primitive at its deadline, which carries the last retryable error if there was one.
\<close>

datatype go_error =
    Error string
  | ErrFetchingJobStatus go_error
  | ErrNotFinalState tf_string string
  | TimeoutExceeded "go_error option"

datatype severity = SeverityError | SeverityWarning

datatype detail = Text string | ErrorText go_error

datatype Diagnostic = Diagnostic severity string detail

type_synonym Diagnostics = "Diagnostic list"

fun Severity :: "Diagnostic \<Rightarrow> severity" where
  "Severity (Diagnostic sev summary d) = sev"

definition NewErrorDiagnostic :: "string \<Rightarrow> detail \<Rightarrow> Diagnostic" where
  "NewErrorDiagnostic summary d = Diagnostic SeverityError summary d"

definition NewWarningDiagnostic :: "string \<Rightarrow> detail \<Rightarrow> Diagnostic" where
  "NewWarningDiagnostic summary d = Diagnostic SeverityWarning summary d"

definition HasError :: "Diagnostics \<Rightarrow> bool" where
  "HasError diags = list_ex (\<lambda>d. Severity d = SeverityError) diags"

text \<open>
  \<^verbatim>\<open>Diagnostics.Append\<close> of the framework adds each diagnostic that the collection
  does not hold already; \<^verbatim>\<open>AddError\<close> and \<^verbatim>\<open>AddWarning\<close> append one new diagnostic.
\<close>

fun Append :: "Diagnostics \<Rightarrow> Diagnostics \<Rightarrow> Diagnostics" where
  "Append diags [] = diags"
| "Append diags (d # ds) = Append (if d \<in> set diags then diags else diags @ [d]) ds"

definition AddError :: "Diagnostics \<Rightarrow> string \<Rightarrow> detail \<Rightarrow> Diagnostics" where
  "AddError diags summary d = Append diags [NewErrorDiagnostic summary d]"

definition AddWarning :: "Diagnostics \<Rightarrow> string \<Rightarrow> detail \<Rightarrow> Diagnostics" where
  "AddWarning diags summary d = Append diags [NewWarningDiagnostic summary d]"

section \<open>The data model\<close>

text \<open>
  A decoded JSON value; \<^verbatim>\<open>map[string]interface{}\<close> is an association list whose
  order is the order in which Go's \<^verbatim>\<open>range\<close> visits the map.
\<close>

datatype json =
    JNull
  | JBool bool
  | JNumber int
  | JString string
  | JArray "json list"
  | JObject "(string \<times> json) list"

type_synonym json_object = "(string \<times> json) list"

text \<open>\<^verbatim>\<open>JobAPIModel\<close>; the fields carry the names of their JSON tags.\<close>

record JobAPIModel =
  job_template :: int64
  job_type :: string
  url :: string
  status :: string
  inventory :: int64
  extra_vars :: string
  ignored_fields :: json_object

text \<open>\<^verbatim>\<open>JobResourceModel\<close>.\<close>

record JobResourceModel =
  TemplateID :: tf_int64
  Type :: tf_string
  URL :: tf_string
  Status :: tf_string
  InventoryID :: tf_int64
  ExtraVars :: tf_string
  IgnoredFields :: tf_list
  Triggers :: tf_map
  WaitForCompletion :: tf_bool
  WaitForCompletionTimeout :: tf_int64
  DestroyJobTemplateID :: tf_int64

text \<open>
  \<^verbatim>\<open>json.Marshal\<close> of a \<^verbatim>\<open>JobAPIModel\<close>: every field is tagged \<^verbatim>\<open>omitempty\<close>, so a
  field holding its zero value is left out. It cannot fail on this struct; the result
  type keeps the error that the caller tests.
\<close>

definition json_Marshal :: "JobAPIModel \<Rightarrow> go_error + json_object" where
  "json_Marshal j = Inr (
     (if job_template j = 0 then [] else [(''job_template'', JNumber (sint (job_template j)))]) @
     (if job_type j = [] then [] else [(''job_type'', JString (job_type j))]) @
     (if url j = [] then [] else [(''url'', JString (url j))]) @
     (if status j = [] then [] else [(''status'', JString (status j))]) @
     (if inventory j = 0 then [] else [(''inventory'', JNumber (sint (inventory j)))]) @
     (if extra_vars j = [] then [] else [(''extra_vars'', JString (extra_vars j))]) @
     (if ignored_fields j = [] then [] else [(''ignored_fields'', JObject (ignored_fields j))]))"

text \<open>
  A response body is kept as what \<^verbatim>\<open>json.Unmarshal(body, &resultApiJob)\<close> makes of it:
  an error, or the decoded \<^verbatim>\<open>JobAPIModel\<close>.
\<close>

datatype response_body = Malformed string | WellFormed JobAPIModel

section \<open>Terminal states\<close>

definition finalStates :: "string \<rightharpoonup> bool" where
  "finalStates = map_of
     [(''new'', False), (''pending'', False), (''waiting'', False), (''running'', False),
      (''successful'', True), (''failed'', True), (''error'', True), (''canceled'', True)]"

text \<open>A lookup of a missing key gives \<^verbatim>\<open>false, false\<close>.\<close>

definition IsFinalStateAAPJob :: "string \<Rightarrow> bool" where
  "IsFinalStateAAPJob state =
     (case finalStates state of
        Some result \<Rightarrow> True \<and> result
      | None \<Rightarrow> False \<and> False)"

section \<open>The request body and the response\<close>

definition CreateRequestBody :: "JobResourceModel \<Rightarrow> json_object option \<times> Diagnostics" where
  "CreateRequestBody r =
     (let inventoryID = (if ValueInt64 (InventoryID r) = 0 then 1 else ValueInt64 (InventoryID r));
          job = \<lparr>job_template = 0, job_type = [], url = [], status = [], inventory = inventoryID,
                 extra_vars = ValueString (ExtraVars r), ignored_fields = []\<rparr>
      in case json_Marshal job of
           Inl err \<Rightarrow> (None, AddError [] ''Error marshaling request body'' (ErrorText err))
         | Inr jsonBody \<Rightarrow> (Some jsonBody, []))"

definition keyMapping :: "string \<rightharpoonup> string" where
  "keyMapping = map_of [(''inventory'', ''inventory'')]"

text \<open>The loop of \<^verbatim>\<open>ParseIgnoredFields\<close> over the map, appending to \<^verbatim>\<open>keysList\<close>.\<close>

fun keysList_loop :: "json_object \<Rightarrow> tf_string list \<Rightarrow> tf_string list" where
  "keysList_loop [] keysList = keysList"
| "keysList_loop ((k, x) # rest) keysList =
     keysList_loop rest
       (keysList @ [StringValue (case keyMapping k of Some v \<Rightarrow> v | None \<Rightarrow> k)])"

definition ParseIgnoredFields :: "JobResourceModel \<Rightarrow> json_object \<Rightarrow> JobResourceModel \<times> Diagnostics" where
  "ParseIgnoredFields r ignoredFields =
     (let keysList = keysList_loop ignoredFields []
      in (if length keysList > 0 then r\<lparr>IgnoredFields := ListValue keysList\<rparr>
          else r\<lparr>IgnoredFields := ListNull\<rparr>, []))"

definition ParseHttpResponse :: "JobResourceModel \<Rightarrow> response_body \<Rightarrow> JobResourceModel \<times> Diagnostics" where
  "ParseHttpResponse r body =
     (case body of
        Malformed err \<Rightarrow> (r, AddError [] ''Error parsing JSON response from AAP'' (Text err))
      | WellFormed resultApiJob \<Rightarrow>
          ParseIgnoredFields
            (r\<lparr>Type := StringValue (job_type resultApiJob),
               URL := StringValue (url resultApiJob),
               Status := StringValue (status resultApiJob),
               TemplateID := Int64Value (job_template resultApiJob),
               InventoryID := Int64Value (inventory resultApiJob)\<rparr>)
            (ignored_fields resultApiJob))"

definition GetTemplateID :: "JobResourceModel \<Rightarrow> string" where
  "GetTemplateID r = Int64_String (TemplateID r)"

section \<open>The remote API client\<close>

text \<open>
  \<^verbatim>\<open>ProviderHTTPClient\<close> is an interface; its answers are inputs of the model. Each method
  also receives the number of requests made through the client before, so that an
  implementation may answer successive calls differently. A URL built with
  \<^verbatim>\<open>path.Join\<close> is kept as the list of the elements joined. \<^verbatim>\<open>doRequest\<close> answers
  with the status code of the \<^verbatim>\<open>*http.Response\<close> (\<^verbatim>\<open>None\<close> for \<^verbatim>\<open>nil\<close>), the body and an
  error.
\<close>

record ProviderHTTPClient =
  getApiEndpoint :: string
  Get :: "nat \<Rightarrow> string \<Rightarrow> response_body \<times> go_error option"
  GetWithStatus :: "nat \<Rightarrow> string \<Rightarrow> response_body \<times> Diagnostics \<times> int"
  doRequest :: "nat \<Rightarrow> string \<Rightarrow> string list \<Rightarrow> json_object option
                  \<Rightarrow> int option \<times> response_body \<times> go_error option"

text \<open>The requests made, in order: the observable effect of an operation on the remote system.\<close>

datatype request =
    GetRequest string
  | DoRequest string "string list" "json_object option"

definition StatusCreated :: int where
  "StatusCreated = 201"

definition StatusNotFound :: int where
  "StatusNotFound = 404"

text \<open>
  Modelled from the spec: \<^verbatim>\<open>ValidateResponse\<close>, called by \<^verbatim>\<open>LaunchJob\<close> and defined in a
  file of the repository that is not among the sources at hand. Section 4.1: the launch
  "requires exactly one success status code; any other status, any transport failure
  [...] is a fatal LaunchError carrying the response body (if any) for diagnosis."
\<close>

definition ValidateResponse ::
  "int option \<Rightarrow> response_body \<Rightarrow> go_error option \<Rightarrow> int list \<Rightarrow> Diagnostics" where
  "ValidateResponse resp body err expected_statuses =
     (case err of
        Some e \<Rightarrow> AddError [] ''Client request error'' (ErrorText e)
      | None \<Rightarrow>
          (case resp of
             None \<Rightarrow> AddError [] ''HTTP response error'' (Text ''No HTTP response from server'')
           | Some code \<Rightarrow>
               if code \<in> set expected_statuses then []
               else AddError [] ''Unexpected HTTP status code received''
                      (Text (case body of Malformed b \<Rightarrow> b | WellFormed j \<Rightarrow> status j))))"

definition LaunchJob ::
  "ProviderHTTPClient \<Rightarrow> JobResourceModel \<Rightarrow> request list
     \<Rightarrow> Diagnostics \<times> JobResourceModel \<times> request list" where
  "LaunchJob client data calls =
     (case CreateRequestBody data of
        (requestBody, diagCreateReq) \<Rightarrow>
          if HasError (Append [] diagCreateReq) then (Append [] diagCreateReq, data, calls)
          else
            (let postURL = [getApiEndpoint client, ''job_templates'', GetTemplateID data, ''launch''];
                 calls' = calls @ [DoRequest ''POST'' postURL requestBody]
             in case doRequest client (length calls) ''POST'' postURL requestBody of
                  (resp, body, err) \<Rightarrow>
                    (let diags = Append (Append [] diagCreateReq)
                                   (ValidateResponse resp body err [StatusCreated])
                     in if HasError diags then (diags, data, calls')
                        else
                          (case ParseHttpResponse data body of
                             (data', parseDiags) \<Rightarrow> (Append diags parseDiags, data', calls')))))"

section \<open>The completion poller\<close>

datatype RetryError = RetryableError go_error | NonRetryableError go_error

text \<open>
  The closure returned by \<^verbatim>\<open>retryUntilAAPJobReachesAnyFinalState\<close> works on the variables
  it captures: \<^verbatim>\<open>model\<close> and \<^verbatim>\<open>diagnostics\<close>, which are the function's own parameters,
  passed by value, so they are copies of what the caller holds. One call of the closure
  takes these variables and the requests made so far, and returns its result with the
  updated variables. \<^verbatim>\<open>ParseHttpResponse\<close> runs before the error of \<^verbatim>\<open>Get\<close> is tested.
  The \<^verbatim>\<open>fmt.Printf\<close> of the status writes to standard output only and is left out.
\<close>

record poll_state =
  model :: JobResourceModel
  diagnostics :: Diagnostics
  requests :: "request list"

definition retryUntilAAPJobReachesAnyFinalState ::
  "ProviderHTTPClient \<Rightarrow> poll_state \<Rightarrow> RetryError option \<times> poll_state" where
  "retryUntilAAPJobReachesAnyFinalState client s =
     (case Get client (length (requests s)) (ValueString (URL (model s))) of
        (responseBody, err) \<Rightarrow>
          (case ParseHttpResponse (model s) responseBody of
             (model', parseDiags) \<Rightarrow>
               (let s' = \<lparr>model = model',
                          diagnostics = Append (diagnostics s) parseDiags,
                          requests = requests s @ [GetRequest (ValueString (URL (model s)))]\<rparr>
                in case err of
                     Some e \<Rightarrow> (Some (RetryableError (ErrFetchingJobStatus e)), s')
                   | None \<Rightarrow>
                       if \<not> IsFinalStateAAPJob (ValueString (Status model'))
                       then (Some (RetryableError
                                     (ErrNotFinalState (URL model') (ValueString (Status model')))), s')
                       else (None, s'))))"

text \<open>
  Modelled from the spec: \<^verbatim>\<open>retry.RetryContext\<close>, the retry primitive of the Terraform
  plugin SDK, which is outside the repository. Section 4.2: the loop calls the step
  again while it classifies its result as retryable, stops with success at the first
  result that is not an error, and "is bounded by D: if D elapses before a terminal
  status is observed, stop and report a TimeoutExceeded failure". Time is not part of
  the model: the first argument is the number of attempts that the deadline leaves room
  for. The failure at the deadline carries the last retryable error.
\<close>

fun RetryContext ::
  "nat \<Rightarrow> ('s \<Rightarrow> RetryError option \<times> 's) \<Rightarrow> go_error option \<Rightarrow> 's \<Rightarrow> go_error option \<times> 's" where
  "RetryContext 0 f lastErr s = (Some (TimeoutExceeded lastErr), s)"
| "RetryContext (Suc n) f lastErr s =
     (case f s of
        (None, s') \<Rightarrow> (None, s')
      | (Some (RetryableError e), s') \<Rightarrow> RetryContext n f (Some e) s'
      | (Some (NonRetryableError e), s') \<Rightarrow> (Some e, s'))"

text \<open>The variables of a step after its first \<open>n\<close> calls.\<close>

fun state_after :: "nat \<Rightarrow> ('s \<Rightarrow> RetryError option \<times> 's) \<Rightarrow> 's \<Rightarrow> 's" where
  "state_after 0 f s = s"
| "state_after (Suc n) f s = state_after n f (snd (f s))"

text \<open>
  The context of an operation: for a timeout (a \<^verbatim>\<open>time.Duration\<close>, in nanoseconds), the
  number of poll attempts that fit before the deadline.
\<close>

record go_context =
  attempts :: "int64 \<Rightarrow> nat"

definition Second :: int64 where
  "Second = 1000000000"

section \<open>The lifecycle operations\<close>

text \<open>
  A request of the framework gives the record read from the plan or the prior state
  (\<^verbatim>\<open>req.Plan.Get\<close>, \<^verbatim>\<open>req.State.Get\<close>) with the diagnostics of that read. A response
  starts with no diagnostics and an untouched state; \<^verbatim>\<open>resp.State.Set\<close> stores the record
  and reports nothing; \<^verbatim>\<open>resp.State.RemoveResource\<close> drops it.
\<close>

record tf_request =
  Get_diags :: Diagnostics
  Get_data :: JobResourceModel

datatype tf_state = StateUntouched | StateSet JobResourceModel | StateRemoved

record tf_response =
  Diagnostics :: Diagnostics
  State :: tf_state

text \<open>
  The wait of \<^verbatim>\<open>Create\<close>, \<^verbatim>\<open>Update\<close> and \<^verbatim>\<open>Delete\<close>: the closure is built from copies of
  \<^verbatim>\<open>data\<close> and \<^verbatim>\<open>resp.Diagnostics\<close>; the caller gets the error and the requests made.
\<close>

definition waitForJob ::
  "go_context \<Rightarrow> ProviderHTTPClient \<Rightarrow> JobResourceModel \<Rightarrow> Diagnostics \<Rightarrow> request list
     \<Rightarrow> go_error option \<times> poll_state" where
  "waitForJob ctx client data diags calls =
     (let timeout = ValueInt64 (WaitForCompletionTimeout data) * Second
      in RetryContext (attempts ctx timeout) (retryUntilAAPJobReachesAnyFinalState client) None
           \<lparr>model = data, diagnostics = diags, requests = calls\<rparr>)"

definition Create ::
  "go_context \<Rightarrow> ProviderHTTPClient \<Rightarrow> tf_request \<Rightarrow> tf_response \<times> request list" where
  "Create ctx client req =
     (let diags0 = Append [] (Get_diags req)
      in if HasError diags0 then (\<lparr>Diagnostics = diags0, State = StateUntouched\<rparr>, [])
         else
           (case LaunchJob client (Get_data req) [] of
              (launchDiags, data, calls) \<Rightarrow>
                (let diags1 = Append diags0 launchDiags
                 in if HasError diags1 then (\<lparr>Diagnostics = diags1, State = StateUntouched\<rparr>, calls)
                    else if ValueBool (WaitForCompletion data) then
                      (case waitForJob ctx client data diags1 calls of
                         (err, polled) \<Rightarrow>
                           (let diags2 =
                                  (case err of
                                     Some e \<Rightarrow> Append diags1
                                       [NewErrorDiagnostic ''error when waiting for AAP job to complete''
                                          (ErrorText e)]
                                   | None \<Rightarrow> diags1)
                            in if HasError diags2
                               then (\<lparr>Diagnostics = diags2, State = StateUntouched\<rparr>, requests polled)
                               else (\<lparr>Diagnostics = diags2, State = StateSet data\<rparr>, requests polled)))
                    else (\<lparr>Diagnostics = diags1, State = StateSet data\<rparr>, calls))))"

definition Update ::
  "go_context \<Rightarrow> ProviderHTTPClient \<Rightarrow> tf_request \<Rightarrow> tf_response \<times> request list" where
  "Update ctx client req =
     (let diags0 = Append [] (Get_diags req)
      in if HasError diags0 then (\<lparr>Diagnostics = diags0, State = StateUntouched\<rparr>, [])
         else
           (case LaunchJob client (Get_data req) [] of
              (launchDiags, data, calls) \<Rightarrow>
                (let diags1 = Append diags0 launchDiags
                 in if HasError diags1 then (\<lparr>Diagnostics = diags1, State = StateUntouched\<rparr>, calls)
                    else if ValueBool (WaitForCompletion data) then
                      (case waitForJob ctx client data diags1 calls of
                         (err, polled) \<Rightarrow>
                           (let diags2 =
                                  (case err of
                                     Some e \<Rightarrow> Append diags1
                                       [NewErrorDiagnostic ''error when waiting for AAP job to complete''
                                          (ErrorText e)]
                                   | None \<Rightarrow> diags1)
                            in if HasError diags2
                               then (\<lparr>Diagnostics = diags2, State = StateUntouched\<rparr>, requests polled)
                               else (\<lparr>Diagnostics = diags2, State = StateSet data\<rparr>, requests polled)))
                    else (\<lparr>Diagnostics = diags1, State = StateSet data\<rparr>, calls))))"

definition Read ::
  "ProviderHTTPClient \<Rightarrow> tf_request \<Rightarrow> tf_response \<times> request list" where
  "Read client req =
     (let diags0 = Append [] (Get_diags req);
          data = Get_data req
      in if HasError diags0 then (\<lparr>Diagnostics = diags0, State = StateUntouched\<rparr>, [])
         else
           (case GetWithStatus client 0 (ValueString (URL data)) of
              (readResponseBody, diags, code) \<Rightarrow>
                (let calls = [GetRequest (ValueString (URL data))]
                 in if code = StatusNotFound
                    then (\<lparr>Diagnostics =
                             AddWarning diags0 ''Job not found''
                               (Text ''The job was not found. It may have been deleted. The job will be recreated.''),
                           State = StateRemoved\<rparr>, calls)
                    else
                      (let diags1 = Append diags0 diags
                       in if HasError diags1 then (\<lparr>Diagnostics = diags1, State = StateUntouched\<rparr>, calls)
                          else
                            (case ParseHttpResponse data readResponseBody of
                               (data', parseDiags) \<Rightarrow>
                                 (let diags2 = Append diags1 parseDiags
                                  in if HasError diags2
                                     then (\<lparr>Diagnostics = diags2, State = StateUntouched\<rparr>, calls)
                                     else (\<lparr>Diagnostics = diags2, State = StateSet data'\<rparr>, calls)))))))"

text \<open>The temporary record of \<^verbatim>\<open>Delete\<close>; the fields not named are Go zero values.\<close>

definition destroyJobData :: "JobResourceModel \<Rightarrow> JobResourceModel" where
  "destroyJobData data =
     \<lparr>TemplateID = DestroyJobTemplateID data,
      Type = StringNull,
      URL = StringNull,
      Status = StringNull,
      InventoryID = InventoryID data,
      ExtraVars = ExtraVars data,
      IgnoredFields = ListNull,
      Triggers = MapNull,
      WaitForCompletion = WaitForCompletion data,
      WaitForCompletionTimeout = WaitForCompletionTimeout data,
      DestroyJobTemplateID = Int64Null\<rparr>"

text \<open>
  \<^verbatim>\<open>Delete\<close> touches no state itself: the framework removes the resource after it when
  the response holds no error diagnostic, and keeps it otherwise.
\<close>

definition Delete ::
  "go_context \<Rightarrow> ProviderHTTPClient \<Rightarrow> tf_request \<Rightarrow> tf_response \<times> request list" where
  "Delete ctx client req =
     (let diags0 = Append [] (Get_diags req);
          data = Get_data req
      in if HasError diags0 then (\<lparr>Diagnostics = diags0, State = StateUntouched\<rparr>, [])
         else if \<not> IsNull (DestroyJobTemplateID data) \<and> 0 <s ValueInt64 (DestroyJobTemplateID data)
         then
           (case LaunchJob client (destroyJobData data) [] of
              (launchDiags, destroyJob, calls) \<Rightarrow>
                (let diags1 = Append diags0 launchDiags
                 in if HasError diags1 then (\<lparr>Diagnostics = diags1, State = StateUntouched\<rparr>, calls)
                    else if ValueBool (WaitForCompletion destroyJob) then
                      (case waitForJob ctx client destroyJob diags1 calls of
                         (err, polled) \<Rightarrow>
                           (let diags2 =
                                  (case err of
                                     Some e \<Rightarrow> Append diags1
                                       [NewErrorDiagnostic ''error when waiting for destroy job to complete''
                                          (ErrorText e)]
                                   | None \<Rightarrow> diags1)
                            in (\<lparr>Diagnostics = diags2, State = StateUntouched\<rparr>, requests polled)))
                    else (\<lparr>Diagnostics = diags1, State = StateUntouched\<rparr>, calls)))
         else (\<lparr>Diagnostics = diags0, State = StateUntouched\<rparr>, []))"

section \<open>Responses and sample inputs\<close>

text \<open>Whether a response body decodes to a record with a terminal status.\<close>

fun body_terminal :: "response_body \<Rightarrow> bool" where
  "body_terminal (Malformed e) = False"
| "body_terminal (WellFormed j) = IsFinalStateAAPJob (status j)"

text \<open>
  Sample inputs for the concrete cases below: the body of job 42 of template 7 with a
  given status; a client that answers every launch with one fixed answer and the
  \<open>n\<close>-th request after the launch with the \<open>n\<close>-th entry of a list (a refused
  connection afterwards), and every plain read with 404; a planned record; a context
  whose deadline leaves room for a fixed number of attempts.
\<close>

definition sample_job :: "string \<Rightarrow> JobAPIModel" where
  "sample_job st =
     \<lparr>job_template = 7, job_type = ''run'', url = ''/jobs/42/'', status = st, inventory = 5,
      extra_vars = [], ignored_fields = []\<rparr>"

definition sample_client ::
  "int option \<times> response_body \<times> go_error option \<Rightarrow> (response_body \<times> go_error option) list
     \<Rightarrow> ProviderHTTPClient" where
  "sample_client launch polls =
     \<lparr>getApiEndpoint = ''/api/v2'',
      Get = (\<lambda>n u. if 0 < n \<and> n \<le> length polls then polls ! (n - 1)
                    else (Malformed ''unexpected end of JSON input'', Some (Error ''connection refused''))),
      GetWithStatus = (\<lambda>n u. (Malformed ''unexpected end of JSON input'', [], StatusNotFound)),
      doRequest = (\<lambda>n method u body. launch)\<rparr>"

definition sample_record :: "bool \<Rightarrow> tf_int64 \<Rightarrow> JobResourceModel" where
  "sample_record wait destroy =
     \<lparr>TemplateID = Int64Value 7, Type = StringUnknown, URL = StringUnknown, Status = StringUnknown,
      InventoryID = Int64Value 5, ExtraVars = StringValue ''a: 1'', IgnoredFields = ListUnknown,
      Triggers = MapNull, WaitForCompletion = BoolValue wait,
      WaitForCompletionTimeout = Int64Value 120, DestroyJobTemplateID = destroy\<rparr>"

definition sample_request :: "bool \<Rightarrow> tf_int64 \<Rightarrow> tf_request" where
  "sample_request wait destroy = \<lparr>Get_diags = [], Get_data = sample_record wait destroy\<rparr>"

text \<open>The record after a launch answered with \<open>sample_job st\<close>, and a request holding it as prior state.\<close>

definition sample_state :: "string \<Rightarrow> bool \<Rightarrow> tf_int64 \<Rightarrow> JobResourceModel" where
  "sample_state st wait destroy =
     \<lparr>TemplateID = Int64Value 7, Type = StringValue ''run'', URL = StringValue ''/jobs/42/'',
      Status = StringValue st, InventoryID = Int64Value 5, ExtraVars = StringValue ''a: 1'',
      IgnoredFields = ListNull, Triggers = MapNull, WaitForCompletion = BoolValue wait,
      WaitForCompletionTimeout = Int64Value 120, DestroyJobTemplateID = destroy\<rparr>"

definition sample_state_request :: "string \<Rightarrow> bool \<Rightarrow> tf_int64 \<Rightarrow> tf_request" where
  "sample_state_request st wait destroy = \<lparr>Get_diags = [], Get_data = sample_state st wait destroy\<rparr>"

definition sample_context :: "nat \<Rightarrow> go_context" where
  "sample_context k = \<lparr>attempts = (\<lambda>timeout. k)\<rparr>"

section \<open>Auxiliary facts\<close>

subsection \<open>Diagnostics\<close>

lemma set_Append: "set (Append a b) = set a \<union> set b"
  by (induction b arbitrary: a) auto

lemma HasError_iff: "HasError ds = (\<exists>d\<in>set ds. Severity d = SeverityError)"
  by (simp add: HasError_def list_ex_iff)

lemma HasError_Append: "HasError (Append a b) = (HasError a \<or> HasError b)"
  by (auto simp: HasError_iff set_Append)

lemma HasError_Nil: "\<not> HasError []"
  by (simp add: HasError_def)

lemma HasError_single_error: "HasError [NewErrorDiagnostic summary d]"
  by (simp add: HasError_def NewErrorDiagnostic_def)

subsection \<open>Ignored fields\<close>

lemma keysList_loop_map:
  "keysList_loop m acc = acc @ map (\<lambda>k. StringValue (case keyMapping k of Some v \<Rightarrow> v | None \<Rightarrow> k)) (map fst m)"
  by (induction m acc rule: keysList_loop.induct) simp_all

lemma keyMapping_id: "(case keyMapping k of Some v \<Rightarrow> v | None \<Rightarrow> k) = k"
  by (simp add: keyMapping_def)

subsection \<open>The retry loop\<close>

lemma state_after_Suc: "state_after (Suc n) f s = snd (f (state_after n f s))"
  by (induction n arbitrary: s) simp_all

lemma RetryContext_success:
  "\<forall>i<m. \<exists>e. fst (f (state_after i f s)) = Some (RetryableError e)
   \<Longrightarrow> fst (f (state_after m f s)) = None
   \<Longrightarrow> m < k
   \<Longrightarrow> RetryContext k f lastErr s = (None, state_after (Suc m) f s)"
proof (induction m arbitrary: k s lastErr)
  case 0
  then obtain k' where k: "k = Suc k'" by (cases k) auto
  from 0 show ?case by (cases "f s") (simp add: k)
next
  case (Suc m)
  then obtain k' where k: "k = Suc k'" by (cases k) auto
  from Suc.prems(1) have "\<exists>e. fst (f (state_after 0 f s)) = Some (RetryableError e)"
    by blast
  then obtain e where e: "fst (f s) = Some (RetryableError e)" by auto
  have step: "\<forall>i<m. \<exists>e. fst (f (state_after i f (snd (f s)))) = Some (RetryableError e)"
  proof (intro allI impI)
    fix i assume "i < m"
    then have "Suc i < Suc m" by simp
    with Suc.prems(1) have "\<exists>e. fst (f (state_after (Suc i) f s)) = Some (RetryableError e)"
      by blast
    then show "\<exists>e. fst (f (state_after i f (snd (f s)))) = Some (RetryableError e)"
      by simp
  qed
  have fin: "fst (f (state_after m f (snd (f s)))) = None"
    using Suc.prems(2) by simp
  have "m < k'" using Suc.prems(3) k by simp
  from Suc.IH [OF step fin this]
  have "RetryContext k' f (Some e) (snd (f s)) = (None, state_after (Suc m) f (snd (f s)))" .
  then show ?case using e by (cases "f s") (simp add: k)
qed

lemma RetryContext_timeout:
  "\<forall>i<k. \<exists>e. fst (f (state_after i f s)) = Some (RetryableError e)
   \<Longrightarrow> \<exists>e. RetryContext k f lastErr s = (Some (TimeoutExceeded e), state_after k f s)"
proof (induction k arbitrary: s lastErr)
  case 0
  then show ?case by simp
next
  case (Suc k)
  from Suc.prems have "\<exists>e. fst (f (state_after 0 f s)) = Some (RetryableError e)"
    by blast
  then obtain e where e: "fst (f s) = Some (RetryableError e)" by auto
  have step: "\<forall>i<k. \<exists>e. fst (f (state_after i f (snd (f s)))) = Some (RetryableError e)"
  proof (intro allI impI)
    fix i assume "i < k"
    then have "Suc i < Suc k" by simp
    with Suc.prems have "\<exists>e. fst (f (state_after (Suc i) f s)) = Some (RetryableError e)"
      by blast
    then show "\<exists>e. fst (f (state_after i f (snd (f s)))) = Some (RetryableError e)"
      by simp
  qed
  from Suc.IH [OF step, of "Some e"] obtain e' where
    "RetryContext k f (Some e) (snd (f s)) = (Some (TimeoutExceeded e'), state_after k f (snd (f s)))"
    by blast
  then show ?case using e by (cases "f s") simp
qed

subsection \<open>One poll and its iterates\<close>

lemma poll_requests:
  "requests (snd (retryUntilAAPJobReachesAnyFinalState client s)) =
     requests s @ [GetRequest (ValueString (URL (model s)))]"
  by (simp add: retryUntilAAPJobReachesAnyFinalState_def Let_def split: prod.splits option.splits)

lemma poll_iter_requests:
  "\<exists>urls. length urls = i \<and>
     requests (state_after i (retryUntilAAPJobReachesAnyFinalState client) s) =
       requests s @ map GetRequest urls"
proof (induction i)
  case 0
  then show ?case by simp
next
  case (Suc i)
  then obtain urls where u: "length urls = i"
    "requests (state_after i (retryUntilAAPJobReachesAnyFinalState client) s) =
       requests s @ map GetRequest urls" by blast
  let ?t = "state_after i (retryUntilAAPJobReachesAnyFinalState client) s"
  have "requests (state_after (Suc i) (retryUntilAAPJobReachesAnyFinalState client) s) =
      requests s @ map GetRequest (urls @ [ValueString (URL (model ?t))])"
    by (simp only: state_after_Suc poll_requests u) simp
  moreover have "length (urls @ [ValueString (URL (model ?t))]) = Suc i" using u by simp
  ultimately show ?case by blast
qed

lemma poll_iter_length:
  "length (requests (state_after i (retryUntilAAPJobReachesAnyFinalState client) s)) =
     length (requests s) + i"
  using poll_iter_requests [of i client s] by auto

lemma ParseHttpResponse_WellFormed:
  "Status (fst (ParseHttpResponse r (WellFormed j))) = StringValue (status j)
   \<and> URL (fst (ParseHttpResponse r (WellFormed j))) = StringValue (url j)
   \<and> snd (ParseHttpResponse r (WellFormed j)) = []"
  by (simp add: ParseHttpResponse_def ParseIgnoredFields_def Let_def)

lemma ParseHttpResponse_Malformed:
  "fst (ParseHttpResponse r (Malformed e)) = r"
  by (simp add: ParseHttpResponse_def)

lemma poll_WellFormed:
  assumes "Get client (length (requests s)) (ValueString (URL (model s))) = (WellFormed j, None)"
  shows "fst (retryUntilAAPJobReachesAnyFinalState client s) =
         (if IsFinalStateAAPJob (status j) then None
          else Some (RetryableError (ErrNotFinalState (StringValue (url j)) (status j))))
       \<and> Status (model (snd (retryUntilAAPJobReachesAnyFinalState client s))) = StringValue (status j)"
proof -
  obtain m' d where p: "ParseHttpResponse (model s) (WellFormed j) = (m', d)"
    by (cases "ParseHttpResponse (model s) (WellFormed j)") auto
  with ParseHttpResponse_WellFormed [of "model s" j]
  have "Status m' = StringValue (status j)" "URL m' = StringValue (url j)" by simp_all
  then show ?thesis using assms p
    by (simp add: retryUntilAAPJobReachesAnyFinalState_def Let_def)
qed

lemma poll_not_terminal:
  assumes "\<not> IsFinalStateAAPJob (ValueString (Status (model s)))"
    and "\<not> body_terminal (fst (Get client (length (requests s)) (ValueString (URL (model s)))))"
  shows "(\<exists>e. fst (retryUntilAAPJobReachesAnyFinalState client s) = Some (RetryableError e))
     \<and> \<not> IsFinalStateAAPJob
           (ValueString (Status (model (snd (retryUntilAAPJobReachesAnyFinalState client s)))))"
proof -
  obtain body err where g:
    "Get client (length (requests s)) (ValueString (URL (model s))) = (body, err)"
    by (cases "Get client (length (requests s)) (ValueString (URL (model s)))") auto
  obtain m' d where p: "ParseHttpResponse (model s) body = (m', d)"
    by (cases "ParseHttpResponse (model s) body") auto
  have "\<not> IsFinalStateAAPJob (ValueString (Status m'))"
  proof (cases body)
    case (Malformed e)
    with p ParseHttpResponse_Malformed [of "model s" e] assms(1) show ?thesis by simp
  next
    case (WellFormed j)
    with p ParseHttpResponse_WellFormed [of "model s" j] assms(2) g show ?thesis by simp
  qed
  then show ?thesis using g p
    by (cases err) (simp_all add: retryUntilAAPJobReachesAnyFinalState_def Let_def)
qed

lemma poll_iter_not_terminal:
  assumes "\<not> IsFinalStateAAPJob (ValueString (Status (model s)))"
    and "\<forall>i<k. \<forall>u. \<not> body_terminal (fst (Get client (length (requests s) + i) u))"
  shows "i \<le> k \<Longrightarrow>
     \<not> IsFinalStateAAPJob
         (ValueString (Status (model (state_after i (retryUntilAAPJobReachesAnyFinalState client) s))))"
proof (induction i)
  case 0
  then show ?case using assms(1) by simp
next
  case (Suc i)
  let ?f = "retryUntilAAPJobReachesAnyFinalState client"
  from Suc have nt: "\<not> IsFinalStateAAPJob (ValueString (Status (model (state_after i ?f s))))"
    by simp
  from Suc.prems assms(2) have
    "\<not> body_terminal (fst (Get client (length (requests (state_after i ?f s)))
        (ValueString (URL (model (state_after i ?f s))))))"
    by (simp add: poll_iter_length)
  from poll_not_terminal [OF nt this] show ?case
    unfolding state_after_Suc by simp
qed

lemma RetryContext_never_terminal:
  assumes "\<not> IsFinalStateAAPJob (ValueString (Status (model s)))"
    and "\<forall>i<k. \<forall>u. \<not> body_terminal (fst (Get client (length (requests s) + i) u))"
  shows "\<exists>e. RetryContext k (retryUntilAAPJobReachesAnyFinalState client) lastErr s =
           (Some (TimeoutExceeded e), state_after k (retryUntilAAPJobReachesAnyFinalState client) s)"
proof (rule RetryContext_timeout, intro allI impI)
  let ?f = "retryUntilAAPJobReachesAnyFinalState client"
  fix i assume i: "i < k"
  then have "i \<le> k" by simp
  from poll_iter_not_terminal [OF assms this]
  have nt: "\<not> IsFinalStateAAPJob (ValueString (Status (model (state_after i ?f s))))" .
  from i assms(2) have
    "\<not> body_terminal (fst (Get client (length (requests (state_after i ?f s)))
        (ValueString (URL (model (state_after i ?f s))))))"
    by (simp add: poll_iter_length)
  from poll_not_terminal [OF nt this]
  show "\<exists>e. fst (?f (state_after i ?f s)) = Some (RetryableError e)" by simp
qed

subsection \<open>Create and Update\<close>

lemma Update_eq_Create: "Update ctx client req = Create ctx client req"
  by (simp add: Update_def Create_def)

lemma Create_after_launch:
  assumes "\<not> HasError (Get_diags req)"
    and "LaunchJob client (Get_data req) [] = (launchDiags, data, calls)"
    and "\<not> HasError launchDiags"
    and "ValueBool (WaitForCompletion data)"
  shows "fst (Create ctx client req) =
     (case fst (waitForJob ctx client data (Append (Append [] (Get_diags req)) launchDiags) calls) of
        Some e \<Rightarrow>
          \<lparr>Diagnostics = Append (Append (Append [] (Get_diags req)) launchDiags)
             [NewErrorDiagnostic ''error when waiting for AAP job to complete'' (ErrorText e)],
           State = StateUntouched\<rparr>
      | None \<Rightarrow>
          \<lparr>Diagnostics = Append (Append [] (Get_diags req)) launchDiags, State = StateSet data\<rparr>)"
proof -
  obtain err polled where w:
    "waitForJob ctx client data (Append (Append [] (Get_diags req)) launchDiags) calls = (err, polled)"
    by (cases "waitForJob ctx client data (Append (Append [] (Get_diags req)) launchDiags) calls") auto
  have h0: "\<not> HasError (Append [] (Get_diags req))"
    using assms(1) by (simp add: HasError_Append HasError_Nil)
  have h1: "\<not> HasError (Append (Append [] (Get_diags req)) launchDiags)"
    using h0 assms(3) by (simp add: HasError_Append)
  show ?thesis
    using assms(2,4) w h0 h1
    by (cases err)
       (simp_all add: Create_def Let_def HasError_Append HasError_single_error del: Append.simps)
qed

subsection \<open>Launch and Delete\<close>

lemma CreateRequestBody_ok: "snd (CreateRequestBody r) = [] \<and> fst (CreateRequestBody r) \<noteq> None"
  by (simp add: CreateRequestBody_def json_Marshal_def Let_def)

lemma CreateRequestBody_fields:
  "InventoryID r = InventoryID r' \<Longrightarrow> ExtraVars r = ExtraVars r'
   \<Longrightarrow> CreateRequestBody r = CreateRequestBody r'"
  by (simp add: CreateRequestBody_def)

lemma ParseHttpResponse_keeps_wait:
  "WaitForCompletion (fst (ParseHttpResponse r body)) = WaitForCompletion r
   \<and> WaitForCompletionTimeout (fst (ParseHttpResponse r body)) = WaitForCompletionTimeout r"
  by (cases body) (simp_all add: ParseHttpResponse_def ParseIgnoredFields_def Let_def)

lemma ParseHttpResponse_keeps_wait':
  "ParseHttpResponse r body = (r', d) \<Longrightarrow>
     WaitForCompletion r' = WaitForCompletion r
     \<and> WaitForCompletionTimeout r' = WaitForCompletionTimeout r"
  using ParseHttpResponse_keeps_wait [of r body] by simp

lemma LaunchJob_requests:
  "snd (snd (LaunchJob client data calls)) =
     calls @ [DoRequest ''POST'' [getApiEndpoint client, ''job_templates'', GetTemplateID data, ''launch'']
               (fst (CreateRequestBody data))]"
proof -
  obtain b d where c: "CreateRequestBody data = (b, d)" by (cases "CreateRequestBody data") auto
  with CreateRequestBody_ok [of data] have d: "d = []" by simp
  show ?thesis
    by (simp add: LaunchJob_def c d HasError_Nil Let_def split: prod.splits)
qed

lemma LaunchJob_keeps_wait:
  "WaitForCompletion (fst (snd (LaunchJob client data calls))) = WaitForCompletion data
   \<and> WaitForCompletionTimeout (fst (snd (LaunchJob client data calls))) = WaitForCompletionTimeout data"
proof -
  obtain b d where c: "CreateRequestBody data = (b, d)" by (cases "CreateRequestBody data") auto
  with CreateRequestBody_ok [of data] have d: "d = []" by simp
  show ?thesis
    by (auto simp: LaunchJob_def c d HasError_Nil Let_def split: prod.splits
          dest!: ParseHttpResponse_keeps_wait')
qed

lemma RetryContext_requests:
  "\<exists>urls. length urls \<le> k \<and>
     requests (snd (RetryContext k (retryUntilAAPJobReachesAnyFinalState client) lastErr s)) =
       requests s @ map GetRequest urls"
proof (induction k arbitrary: lastErr s)
  case 0
  have "length ([]::string list) \<le> 0 \<and>
      requests (snd (RetryContext 0 (retryUntilAAPJobReachesAnyFinalState client) lastErr s)) =
        requests s @ map GetRequest []" by simp
  then show ?case by blast
next
  case (Suc k)
  let ?f = "retryUntilAAPJobReachesAnyFinalState client"
  let ?u = "ValueString (URL (model s))"
  obtain r s' where f: "?f s = (r, s')" by (cases "?f s") auto
  with poll_requests [of client s] have rs: "requests s' = requests s @ [GetRequest ?u]" by simp
  show ?case
  proof (cases r)
    case None
    with f rs have "length [?u] \<le> Suc k \<and>
        requests (snd (RetryContext (Suc k) ?f lastErr s)) = requests s @ map GetRequest [?u]"
      by simp
    then show ?thesis by blast
  next
    case (Some re)
    show ?thesis
    proof (cases re)
      case (RetryableError e)
      from Suc.IH [of "Some e" s'] obtain urls where u: "length urls \<le> k"
        "requests (snd (RetryContext k ?f (Some e) s')) = requests s' @ map GetRequest urls"
        by blast
      with f rs Some RetryableError have "length (?u # urls) \<le> Suc k \<and>
          requests (snd (RetryContext (Suc k) ?f lastErr s)) = requests s @ map GetRequest (?u # urls)"
        by simp
      then show ?thesis by blast
    next
      case (NonRetryableError e)
      with f rs Some have "length [?u] \<le> Suc k \<and>
          requests (snd (RetryContext (Suc k) ?f lastErr s)) = requests s @ map GetRequest [?u]"
        by simp
      then show ?thesis by blast
    qed
  qed
qed

lemma waitForJob_requests:
  "\<exists>urls. length urls \<le> attempts ctx (ValueInt64 (WaitForCompletionTimeout data) * Second) \<and>
     requests (snd (waitForJob ctx client data diags calls)) = calls @ map GetRequest urls"
  using RetryContext_requests
    [of "attempts ctx (ValueInt64 (WaitForCompletionTimeout data) * Second)" client None
        "\<lparr>model = data, diagnostics = diags, requests = calls\<rparr>"]
  by (simp add: waitForJob_def Let_def)

lemma Delete_with_template:
  assumes "\<not> HasError (Get_diags req)"
    and "\<not> IsNull (DestroyJobTemplateID (Get_data req))"
    and "0 <s ValueInt64 (DestroyJobTemplateID (Get_data req))"
    and "LaunchJob client (destroyJobData (Get_data req)) [] = (launchDiags, job, calls)"
  shows "Delete ctx client req =
     (if HasError launchDiags
      then (\<lparr>Diagnostics = Append (Append [] (Get_diags req)) launchDiags, State = StateUntouched\<rparr>, calls)
      else if ValueBool (WaitForCompletion job)
      then (\<lparr>Diagnostics =
               (case fst (waitForJob ctx client job (Append (Append [] (Get_diags req)) launchDiags) calls) of
                  Some e \<Rightarrow> Append (Append (Append [] (Get_diags req)) launchDiags)
                    [NewErrorDiagnostic ''error when waiting for destroy job to complete'' (ErrorText e)]
                | None \<Rightarrow> Append (Append [] (Get_diags req)) launchDiags),
             State = StateUntouched\<rparr>,
            requests (snd (waitForJob ctx client job (Append (Append [] (Get_diags req)) launchDiags) calls)))
      else (\<lparr>Diagnostics = Append (Append [] (Get_diags req)) launchDiags, State = StateUntouched\<rparr>, calls))"
proof -
  have h0: "\<not> HasError (Append [] (Get_diags req))"
    using assms(1) by (simp add: HasError_Append HasError_Nil)
  show ?thesis
    using assms(2-4) h0
    by (simp add: Delete_def Let_def HasError_Append split: prod.splits del: Append.simps)
qed

subsection \<open>Evaluating the sample inputs\<close>

lemmas launch_defs =
  LaunchJob_def CreateRequestBody_def json_Marshal_def ValidateResponse_def
  ParseHttpResponse_def ParseIgnoredFields_def GetTemplateID_def Sprintf_d_def digit_def
  StatusCreated_def AddError_def NewErrorDiagnostic_def HasError_def Let_def

lemma sample_launch:
  "LaunchJob (sample_client (Some 201, WellFormed (sample_job st), None) polls) (sample_record wait destroy) [] =
   ([], sample_state st wait destroy,
    [DoRequest ''POST'' [''/api/v2'', ''job_templates'', ''7'', ''launch'']
       (Some [(''inventory'', JNumber 5), (''extra_vars'', JString ''a: 1'')])])"
  by (simp add: launch_defs sample_client_def sample_record_def sample_job_def sample_state_def)

lemmas poll_defs =
  waitForJob_def retryUntilAAPJobReachesAnyFinalState_def ParseHttpResponse_def
  ParseIgnoredFields_def IsFinalStateAAPJob_def finalStates_def AddError_def
  NewErrorDiagnostic_def Let_def

lemma sample_Get:
  "Get (sample_client launch polls) n u =
     (if 0 < n \<and> n \<le> length polls then polls ! (n - 1)
      else (Malformed ''unexpected end of JSON input'', Some (Error ''connection refused'')))"
  by (simp add: sample_client_def)

lemma sless_0_9: "0 <s (9::int64)"
  by (simp add: word_sless_alt)

lemmas delete_defs =
  Delete_def destroyJobData_def sample_state_request_def sample_state_def sample_client_def
  sample_job_def sample_context_def launch_defs poll_defs

lemma sample_destroy_launch:
  "LaunchJob (sample_client (Some 201, WellFormed (sample_job st), None) polls)
     (destroyJobData (Get_data (sample_state_request st0 wait (Int64Value 9)))) [] =
   ([], sample_state st wait Int64Null,
    [DoRequest ''POST'' [''/api/v2'', ''job_templates'', ''9'', ''launch'']
       (Some [(''inventory'', JNumber 5), (''extra_vars'', JString ''a: 1'')])])"
  by (simp add: launch_defs destroyJobData_def sample_state_request_def sample_client_def
        sample_job_def sample_state_def)

lemma sample_wait:
  "IsFinalStateAAPJob st \<Longrightarrow>
   fst (waitForJob (sample_context 3)
      (sample_client (Some 201, WellFormed (sample_job ''pending''), None)
         [(WellFormed (sample_job ''running''), None), (WellFormed (sample_job st), None)])
      (sample_state ''pending'' True Int64Null) diags
      [DoRequest ''POST'' [''/api/v2'', ''job_templates'', ''9'', ''launch'']
         (Some [(''inventory'', JNumber 5), (''extra_vars'', JString ''a: 1'')])]) = None"
  by (simp add: waitForJob_def retryUntilAAPJobReachesAnyFinalState_def ParseHttpResponse_def
        ParseIgnoredFields_def Let_def sample_context_def sample_client_def sample_job_def
        sample_state_def eval_nat_numeral)

section \<open>Terminal classification\<close>

text \<open>
  C1. The classifier is true exactly on "successful", "failed", "error" and "canceled";
  it is false on "new", "pending", "waiting", "running" and on every other string.
\<close>

theorem C1_IsFinalStateAAPJob_iff:
  "IsFinalStateAAPJob s =
     (s = ''successful'' \<or> s = ''failed'' \<or> s = ''error'' \<or> s = ''canceled'')
   \<and> \<not> IsFinalStateAAPJob ''new'' \<and> \<not> IsFinalStateAAPJob ''pending''
   \<and> \<not> IsFinalStateAAPJob ''waiting'' \<and> \<not> IsFinalStateAAPJob ''running''"
  by (simp add: IsFinalStateAAPJob_def finalStates_def)

section \<open>The completion poller\<close>

text \<open>
  C2. When the fetches succeed with well-formed bodies, the first terminal status is the one
  of fetch number \<open>m + 1\<close>, and the deadline leaves room for \<open>m + 1\<close> attempts, the
  poller reports success, its variables are those after exactly \<open>m + 1\<close> calls of the
  step, it has made exactly \<open>m + 1\<close> fetches, each of the first \<open>m\<close> results was classified
  as retryable, the last one was not, and the poller's record carries the terminal status.
\<close>

theorem C2_poller_fetches:
  assumes first_terminal: "IsFinalStateAAPJob (status (js ! m))"
    and earlier: "\<forall>i<m. \<not> IsFinalStateAAPJob (status (js ! i))"
    and fetches: "\<forall>i\<le>m. \<forall>u. Get client (length (requests s) + i) u = (WellFormed (js ! i), None)"
    and deadline: "Suc m \<le> k"
  shows "fst (RetryContext k (retryUntilAAPJobReachesAnyFinalState client) None s) = None
    \<and> snd (RetryContext k (retryUntilAAPJobReachesAnyFinalState client) None s) =
        state_after (Suc m) (retryUntilAAPJobReachesAnyFinalState client) s
    \<and> (\<exists>urls. length urls = Suc m \<and>
          requests (snd (RetryContext k (retryUntilAAPJobReachesAnyFinalState client) None s)) =
            requests s @ map GetRequest urls)
    \<and> (\<forall>i<m. fst (retryUntilAAPJobReachesAnyFinalState client
                    (state_after i (retryUntilAAPJobReachesAnyFinalState client) s)) =
               Some (RetryableError (ErrNotFinalState (StringValue (url (js ! i))) (status (js ! i)))))
    \<and> fst (retryUntilAAPJobReachesAnyFinalState client
             (state_after m (retryUntilAAPJobReachesAnyFinalState client) s)) = None
    \<and> Status (model (snd (RetryContext k (retryUntilAAPJobReachesAnyFinalState client) None s))) =
        StringValue (status (js ! m))"
proof -
  let ?f = "retryUntilAAPJobReachesAnyFinalState client"
  have step: "fst (?f (state_after i ?f s)) =
         (if IsFinalStateAAPJob (status (js ! i)) then None
          else Some (RetryableError (ErrNotFinalState (StringValue (url (js ! i))) (status (js ! i)))))
       \<and> Status (model (snd (?f (state_after i ?f s)))) = StringValue (status (js ! i))"
    if "i \<le> m" for i
  proof -
    from fetches that have
      "Get client (length (requests (state_after i ?f s)))
         (ValueString (URL (model (state_after i ?f s)))) = (WellFormed (js ! i), None)"
      by (simp add: poll_iter_length)
    then show ?thesis by (rule poll_WellFormed)
  qed
  have retry: "\<forall>i<m. fst (?f (state_after i ?f s)) =
      Some (RetryableError (ErrNotFinalState (StringValue (url (js ! i))) (status (js ! i))))"
    using step earlier by simp
  have stop: "fst (?f (state_after m ?f s)) = None"
    using step [of m] first_terminal by simp
  have "\<forall>i<m. \<exists>e. fst (?f (state_after i ?f s)) = Some (RetryableError e)"
    using retry by blast
  from RetryContext_success [OF this stop, of k None] deadline
  have run: "RetryContext k ?f None s = (None, state_after (Suc m) ?f s)" by simp
  have st: "Status (model (state_after (Suc m) ?f s)) = StringValue (status (js ! m))"
    using step [of m] by (simp only: state_after_Suc)
  show ?thesis
    using run retry stop st poll_iter_requests [of "Suc m" client s] by simp
qed

text \<open>The statuses "pending", "running", "successful": three fetches, then success.\<close>

theorem C2_poller_fetches_witness:
  "fst (RetryContext 3
          (retryUntilAAPJobReachesAnyFinalState
             (sample_client (Some 201, WellFormed (sample_job ''pending''), None)
                [(WellFormed (sample_job ''pending''), None), (WellFormed (sample_job ''running''), None),
                 (WellFormed (sample_job ''successful''), None)]))
          None
          \<lparr>model = sample_state ''pending'' True Int64Null, diagnostics = [],
           requests = [DoRequest ''POST'' [] None]\<rparr>) = None
   \<and> (\<exists>urls. length urls = Suc 2 \<and>
         requests (snd (RetryContext 3
          (retryUntilAAPJobReachesAnyFinalState
             (sample_client (Some 201, WellFormed (sample_job ''pending''), None)
                [(WellFormed (sample_job ''pending''), None), (WellFormed (sample_job ''running''), None),
                 (WellFormed (sample_job ''successful''), None)]))
          None
          \<lparr>model = sample_state ''pending'' True Int64Null, diagnostics = [],
           requests = [DoRequest ''POST'' [] None]\<rparr>)) =
         [DoRequest ''POST'' [] None] @ map GetRequest urls)
   \<and> Status (model (snd (RetryContext 3
          (retryUntilAAPJobReachesAnyFinalState
             (sample_client (Some 201, WellFormed (sample_job ''pending''), None)
                [(WellFormed (sample_job ''pending''), None), (WellFormed (sample_job ''running''), None),
                 (WellFormed (sample_job ''successful''), None)]))
          None
          \<lparr>model = sample_state ''pending'' True Int64Null, diagnostics = [],
           requests = [DoRequest ''POST'' [] None]\<rparr>))) = StringValue ''successful''"
proof -
  let ?js = "[sample_job ''pending'', sample_job ''running'', sample_job ''successful'']"
  let ?client = "(sample_client (Some 201, WellFormed (sample_job ''pending''), None)
                [(WellFormed (sample_job ''pending''), None), (WellFormed (sample_job ''running''), None),
                 (WellFormed (sample_job ''successful''), None)])"
  let ?s = "\<lparr>model = sample_state ''pending'' True Int64Null, diagnostics = [],
           requests = [DoRequest ''POST'' [] None]\<rparr>"
  let ?X = "RetryContext 3 (retryUntilAAPJobReachesAnyFinalState ?client) None ?s"
  have h1: "IsFinalStateAAPJob (status (?js ! 2))"
    by (simp add: sample_job_def IsFinalStateAAPJob_def finalStates_def)
  have h2: "\<forall>i<2. \<not> IsFinalStateAAPJob (status (?js ! i))"
  proof (intro allI impI)
    fix i :: nat assume "i < 2"
    then have "i = 0 \<or> i = 1" by arith
    then show "\<not> IsFinalStateAAPJob (status (?js ! i))"
      by (auto simp: sample_job_def IsFinalStateAAPJob_def finalStates_def)
  qed
  have h3: "\<forall>i\<le>2. \<forall>u. Get ?client (length (requests ?s) + i) u = (WellFormed (?js ! i), None)"
  proof (intro allI impI)
    fix i :: nat and u assume "i \<le> 2"
    then have "i = 0 \<or> i = 1 \<or> i = 2" by arith
    then show "Get ?client (length (requests ?s) + i) u = (WellFormed (?js ! i), None)"
      by (auto simp: sample_Get)
  qed
  have h4: "Suc 2 \<le> 3" by simp
  note c = C2_poller_fetches [OF h1 h2 h3 h4]
  have st: "status (?js ! 2) = ''successful''" by (simp add: sample_job_def)
  have r: "requests ?s = [DoRequest ''POST'' [] None]" by simp
  from c have a: "fst ?X = None" by blast
  from c have "\<exists>urls. length urls = Suc 2 \<and> requests (snd ?X) = requests ?s @ map GetRequest urls"
    by blast
  then have b: "\<exists>urls. length urls = Suc 2 \<and>
      requests (snd ?X) = [DoRequest ''POST'' [] None] @ map GetRequest urls"
    by (simp only: r)
  from c have "Status (model (snd ?X)) = StringValue (status (?js ! 2))" by blast
  then have d: "Status (model (snd ?X)) = StringValue ''successful''" by (simp only: st)
  from a b d show ?thesis by blast
qed

section \<open>Create and Update with a wait\<close>

text \<open>
  C3. The claim is that the record saved by a waiting \<^verbatim>\<open>Create\<close> carries the terminal status
  seen by the last fetch. The code saves the record as the launch left it: the poller
  refreshes its own copy. Launch answered "pending", fetches answered "pending", "running",
  "successful": the state saved has status "pending", and the poller's copy is the record
  with status "successful".
\<close>

theorem C3_state_keeps_launch_status:
  "Create (sample_context 3)
     (sample_client (Some 201, WellFormed (sample_job ''pending''), None)
        [(WellFormed (sample_job ''pending''), None), (WellFormed (sample_job ''running''), None),
         (WellFormed (sample_job ''successful''), None)])
     (sample_request True Int64Null) =
   (\<lparr>Diagnostics = [], State = StateSet (sample_state ''pending'' True Int64Null)\<rparr>,
    [DoRequest ''POST'' [''/api/v2'', ''job_templates'', ''7'', ''launch'']
       (Some [(''inventory'', JNumber 5), (''extra_vars'', JString ''a: 1'')]),
     GetRequest ''/jobs/42/'', GetRequest ''/jobs/42/'', GetRequest ''/jobs/42/''])
   \<and> Status (sample_state ''pending'' True Int64Null) = StringValue ''pending''
   \<and> model (snd (waitForJob (sample_context 3)
        (sample_client (Some 201, WellFormed (sample_job ''pending''), None)
           [(WellFormed (sample_job ''pending''), None), (WellFormed (sample_job ''running''), None),
            (WellFormed (sample_job ''successful''), None)])
        (sample_state ''pending'' True Int64Null) []
        [DoRequest ''POST'' [''/api/v2'', ''job_templates'', ''7'', ''launch'']
           (Some [(''inventory'', JNumber 5), (''extra_vars'', JString ''a: 1'')])])) =
      sample_state ''successful'' True Int64Null"
  apply (simp add: Create_def sample_request_def sample_launch HasError_def Let_def)
  apply (simp add: poll_defs sample_context_def sample_client_def sample_job_def sample_state_def
           eval_nat_numeral)
  done

text \<open>
  C4. When the launch succeeded with a status that is not terminal, the wait is set, and no
  body fetched before the deadline shows a terminal status (each is malformed or has
  another status, with or without a fetch error), \<^verbatim>\<open>Create\<close> and \<^verbatim>\<open>Update\<close> end with the
  error diagnostic of the wait, which carries the timeout, and leave the state untouched.
\<close>

theorem C4_timeout_is_an_error:
  assumes "\<not> HasError (Get_diags req)"
    and "LaunchJob client (Get_data req) [] = (launchDiags, data, calls)"
    and "\<not> HasError launchDiags"
    and "ValueBool (WaitForCompletion data)"
    and "\<not> IsFinalStateAAPJob (ValueString (Status data))"
    and "\<forall>i < attempts ctx (ValueInt64 (WaitForCompletionTimeout data) * Second).
           \<forall>u. \<not> body_terminal (fst (Get client (length calls + i) u))"
  shows "(\<exists>e. NewErrorDiagnostic ''error when waiting for AAP job to complete''
                 (ErrorText (TimeoutExceeded e)) \<in> set (Diagnostics (fst (Create ctx client req))))
     \<and> HasError (Diagnostics (fst (Create ctx client req)))
     \<and> State (fst (Create ctx client req)) = StateUntouched
     \<and> (\<exists>e. NewErrorDiagnostic ''error when waiting for AAP job to complete''
                 (ErrorText (TimeoutExceeded e)) \<in> set (Diagnostics (fst (Update ctx client req))))
     \<and> HasError (Diagnostics (fst (Update ctx client req)))
     \<and> State (fst (Update ctx client req)) = StateUntouched"
proof -
  let ?s = "\<lparr>model = data, diagnostics = Append (Append [] (Get_diags req)) launchDiags,
             requests = calls\<rparr>"
  have "\<not> IsFinalStateAAPJob (ValueString (Status (model ?s)))" using assms(5) by simp
  moreover have "\<forall>i < attempts ctx (ValueInt64 (WaitForCompletionTimeout data) * Second).
      \<forall>u. \<not> body_terminal (fst (Get client (length (requests ?s) + i) u))"
    using assms(6) by simp
  ultimately have "\<exists>e. RetryContext (attempts ctx (ValueInt64 (WaitForCompletionTimeout data) * Second))
        (retryUntilAAPJobReachesAnyFinalState client) None ?s =
      (Some (TimeoutExceeded e),
       state_after (attempts ctx (ValueInt64 (WaitForCompletionTimeout data) * Second))
         (retryUntilAAPJobReachesAnyFinalState client) ?s)"
    by (rule RetryContext_never_terminal)
  then obtain e where
    "fst (waitForJob ctx client data (Append (Append [] (Get_diags req)) launchDiags) calls) =
       Some (TimeoutExceeded e)"
    by (auto simp: waitForJob_def Let_def)
  with Create_after_launch [OF assms(1-4), of ctx]
  have c: "fst (Create ctx client req) =
      \<lparr>Diagnostics = Append (Append (Append [] (Get_diags req)) launchDiags)
         [NewErrorDiagnostic ''error when waiting for AAP job to complete''
            (ErrorText (TimeoutExceeded e))],
       State = StateUntouched\<rparr>" by simp
  have "NewErrorDiagnostic ''error when waiting for AAP job to complete''
          (ErrorText (TimeoutExceeded e)) \<in> set (Diagnostics (fst (Create ctx client req)))"
    by (simp add: c set_Append del: Append.simps)
  moreover have "HasError (Diagnostics (fst (Create ctx client req)))"
    by (simp add: c HasError_Append HasError_single_error del: Append.simps)
  moreover have "State (fst (Create ctx client req)) = StateUntouched" by (simp add: c)
  ultimately show ?thesis by (auto simp: Update_eq_Create)
qed

text \<open>Launch answered "pending", every fetch "running", room for two attempts.\<close>

theorem C4_timeout_is_an_error_witness:
  "HasError (Diagnostics (fst (Create (sample_context 2)
      (sample_client (Some 201, WellFormed (sample_job ''pending''), None)
         [(WellFormed (sample_job ''running''), None), (WellFormed (sample_job ''running''), None)])
      (sample_request True Int64Null))))
   \<and> State (fst (Create (sample_context 2)
      (sample_client (Some 201, WellFormed (sample_job ''pending''), None)
         [(WellFormed (sample_job ''running''), None), (WellFormed (sample_job ''running''), None)])
      (sample_request True Int64Null))) = StateUntouched
   \<and> HasError (Diagnostics (fst (Update (sample_context 2)
      (sample_client (Some 201, WellFormed (sample_job ''pending''), None)
         [(WellFormed (sample_job ''running''), None), (WellFormed (sample_job ''running''), None)])
      (sample_request True Int64Null))))
   \<and> State (fst (Update (sample_context 2)
      (sample_client (Some 201, WellFormed (sample_job ''pending''), None)
         [(WellFormed (sample_job ''running''), None), (WellFormed (sample_job ''running''), None)])
      (sample_request True Int64Null))) = StateUntouched"
proof -
  let ?client = "sample_client (Some 201, WellFormed (sample_job ''pending''), None)
         [(WellFormed (sample_job ''running''), None), (WellFormed (sample_job ''running''), None)]"
  let ?calls = "[DoRequest ''POST'' [''/api/v2'', ''job_templates'', ''7'', ''launch'']
       (Some [(''inventory'', JNumber 5), (''extra_vars'', JString ''a: 1'')])]"
  have h1: "\<not> HasError (Get_diags (sample_request True Int64Null))"
    by (simp add: sample_request_def HasError_def)
  have h2: "LaunchJob ?client (Get_data (sample_request True Int64Null)) [] =
      ([], sample_state ''pending'' True Int64Null, ?calls)"
    by (simp add: sample_request_def sample_launch)
  have h3: "\<not> HasError []" by (simp add: HasError_def)
  have h4: "ValueBool (WaitForCompletion (sample_state ''pending'' True Int64Null))"
    by (simp add: sample_state_def)
  have h5: "\<not> IsFinalStateAAPJob (ValueString (Status (sample_state ''pending'' True Int64Null)))"
    by (simp add: sample_state_def IsFinalStateAAPJob_def finalStates_def)
  have h6: "\<forall>i < attempts (sample_context 2)
                 (ValueInt64 (WaitForCompletionTimeout (sample_state ''pending'' True Int64Null)) * Second).
      \<forall>u. \<not> body_terminal (fst (Get ?client (length ?calls + i) u))"
  proof (intro allI impI)
    fix i :: nat and u
    assume "i < attempts (sample_context 2)
                 (ValueInt64 (WaitForCompletionTimeout (sample_state ''pending'' True Int64Null)) * Second)"
    then have "i = 0 \<or> i = 1" by (simp add: sample_context_def) arith
    then show "\<not> body_terminal (fst (Get ?client (length ?calls + i) u))"
      by (auto simp: sample_Get sample_job_def IsFinalStateAAPJob_def finalStates_def)
  qed
  from C4_timeout_is_an_error [OF h1 h2 h3 h4 h5 h6] show ?thesis by simp
qed

text \<open>
  C5. The claim is that no parse error of the polling loop is dropped. The code appends it
  to the poller's copy of the diagnostics only. Launch answered "successful" and the fetch
  a malformed body: \<^verbatim>\<open>Create\<close> ends with no diagnostic and saves the state, while the
  poller's copy holds the parse error. Launch answered "pending" and both fetches before
  the deadline malformed bodies: the only diagnostic is the one of the wait, about the
  status "pending".
\<close>

theorem C5_parse_error_dropped:
  "Create (sample_context 3)
     (sample_client (Some 201, WellFormed (sample_job ''successful''), None)
        [(Malformed ''unexpected end of JSON input'', None)])
     (sample_request True Int64Null) =
   (\<lparr>Diagnostics = [], State = StateSet (sample_state ''successful'' True Int64Null)\<rparr>,
    [DoRequest ''POST'' [''/api/v2'', ''job_templates'', ''7'', ''launch'']
       (Some [(''inventory'', JNumber 5), (''extra_vars'', JString ''a: 1'')]),
     GetRequest ''/jobs/42/''])
   \<and> diagnostics (snd (waitForJob (sample_context 3)
        (sample_client (Some 201, WellFormed (sample_job ''successful''), None)
           [(Malformed ''unexpected end of JSON input'', None)])
        (sample_state ''successful'' True Int64Null) []
        [DoRequest ''POST'' [''/api/v2'', ''job_templates'', ''7'', ''launch'']
           (Some [(''inventory'', JNumber 5), (''extra_vars'', JString ''a: 1'')])])) =
      [Diagnostic SeverityError ''Error parsing JSON response from AAP''
         (Text ''unexpected end of JSON input'')]
   \<and> Diagnostics (fst (Create (sample_context 2)
        (sample_client (Some 201, WellFormed (sample_job ''pending''), None)
           [(Malformed ''unexpected end of JSON input'', None),
            (Malformed ''unexpected end of JSON input'', None)])
        (sample_request True Int64Null))) =
      [Diagnostic SeverityError ''error when waiting for AAP job to complete''
         (ErrorText (TimeoutExceeded
            (Some (ErrNotFinalState (StringValue ''/jobs/42/'') ''pending''))))]"
  apply (simp add: Create_def sample_request_def sample_launch HasError_def Let_def)
  apply (simp add: poll_defs sample_context_def sample_client_def sample_job_def sample_state_def
           eval_nat_numeral)
  done

section \<open>Read\<close>

text \<open>
  C6. When the prior state was read without error and the status fetch answers 404,
  \<^verbatim>\<open>Read\<close> adds the warning "Job not found" and nothing else to the diagnostics, none of
  which is an error, removes the resource from the state, and returns: the result does not
  depend on the body or the diagnostics that came with the 404, and one request was made.
\<close>

theorem C6_Read_not_found:
  assumes "\<not> HasError (Get_diags req)"
    and "snd (snd (GetWithStatus client 0 (ValueString (URL (Get_data req))))) = StatusNotFound"
  shows "Read client req =
      (\<lparr>Diagnostics =
          AddWarning (Append [] (Get_diags req)) ''Job not found''
            (Text ''The job was not found. It may have been deleted. The job will be recreated.''),
        State = StateRemoved\<rparr>,
       [GetRequest (ValueString (URL (Get_data req)))])
    \<and> \<not> HasError (Diagnostics (fst (Read client req)))
    \<and> set (Diagnostics (fst (Read client req))) =
        set (Get_diags req) \<union>
        {NewWarningDiagnostic ''Job not found''
           (Text ''The job was not found. It may have been deleted. The job will be recreated.'')}
    \<and> State (fst (Read client req)) = StateRemoved"
proof -
  have h0: "\<not> HasError (Append [] (Get_diags req))"
    using assms(1) by (simp add: HasError_Append HasError_Nil)
  have r: "Read client req =
      (\<lparr>Diagnostics =
          AddWarning (Append [] (Get_diags req)) ''Job not found''
            (Text ''The job was not found. It may have been deleted. The job will be recreated.''),
        State = StateRemoved\<rparr>,
       [GetRequest (ValueString (URL (Get_data req)))])"
  proof -
    obtain body diags code where g:
      "GetWithStatus client 0 (ValueString (URL (Get_data req))) = (body, diags, code)"
      by (cases "GetWithStatus client 0 (ValueString (URL (Get_data req)))") auto
    with assms(2) have "code = StatusNotFound" by simp
    with g h0 show ?thesis by (simp add: Read_def Let_def)
  qed
  have w: "\<not> HasError [NewWarningDiagnostic s d]" for s d
    by (simp add: HasError_def NewWarningDiagnostic_def)
  have "\<not> HasError (Diagnostics (fst (Read client req)))"
    using h0 by (simp add: r AddWarning_def HasError_Append w del: Append.simps)
  moreover have "set (Diagnostics (fst (Read client req))) =
        set (Get_diags req) \<union>
        {NewWarningDiagnostic ''Job not found''
           (Text ''The job was not found. It may have been deleted. The job will be recreated.'')}"
    by (simp add: r AddWarning_def set_Append del: Append.simps)
  ultimately show ?thesis using r by simp
qed

text \<open>A stored job whose fetch answers 404: exactly the warning, and the state removed.\<close>

theorem C6_Read_not_found_witness:
  "Read (sample_client (Some 201, WellFormed (sample_job ''pending''), None) [])
     (sample_state_request ''pending'' False Int64Null) =
   (\<lparr>Diagnostics =
       [Diagnostic SeverityWarning ''Job not found''
          (Text ''The job was not found. It may have been deleted. The job will be recreated.'')],
     State = StateRemoved\<rparr>,
    [GetRequest ''/jobs/42/''])"
proof -
  have h1: "\<not> HasError (Get_diags (sample_state_request ''pending'' False Int64Null))"
    by (simp add: sample_state_request_def HasError_def)
  have h2: "snd (snd (GetWithStatus (sample_client (Some 201, WellFormed (sample_job ''pending''), None) []) 0
      (ValueString (URL (Get_data (sample_state_request ''pending'' False Int64Null)))))) = StatusNotFound"
    by (simp add: sample_client_def)
  from C6_Read_not_found [OF h1 h2] show ?thesis
    by (simp add: sample_state_request_def sample_state_def AddWarning_def NewWarningDiagnostic_def)
qed

section \<open>Delete\<close>

text \<open>
  C7. When \<^verbatim>\<open>destroy_job_template_id\<close> is null or not strictly positive, \<^verbatim>\<open>Delete\<close> makes
  no request. When it is positive and the prior state was read without error, the requests
  are one launch, a POST to the launch path of that template with the request body of the
  original record (its inventory and extra variables), followed by fetches only: none
  unless the original record asks to wait, and no more than its timeout leaves room for.
  The record launched takes its template from \<^verbatim>\<open>destroy_job_template_id\<close> and the inventory,
  extra variables, wait flag and timeout from the original record.
\<close>

theorem C7_Delete_launches:
  "(IsNull (DestroyJobTemplateID (Get_data req))
      \<or> \<not> 0 <s ValueInt64 (DestroyJobTemplateID (Get_data req))
    \<longrightarrow> snd (Delete ctx client req) = [])
   \<and> (\<not> HasError (Get_diags req) \<and> \<not> IsNull (DestroyJobTemplateID (Get_data req))
        \<and> 0 <s ValueInt64 (DestroyJobTemplateID (Get_data req))
      \<longrightarrow> (\<exists>urls.
            snd (Delete ctx client req) =
              DoRequest ''POST''
                [getApiEndpoint client, ''job_templates'',
                 Int64_String (DestroyJobTemplateID (Get_data req)), ''launch'']
                (fst (CreateRequestBody (Get_data req)))
              # map GetRequest urls
            \<and> length urls \<le>
                attempts ctx (ValueInt64 (WaitForCompletionTimeout (Get_data req)) * Second)
            \<and> (ValueBool (WaitForCompletion (Get_data req)) \<or> urls = [])))
   \<and> TemplateID (destroyJobData (Get_data req)) = DestroyJobTemplateID (Get_data req)
   \<and> InventoryID (destroyJobData (Get_data req)) = InventoryID (Get_data req)
   \<and> ExtraVars (destroyJobData (Get_data req)) = ExtraVars (Get_data req)
   \<and> WaitForCompletion (destroyJobData (Get_data req)) = WaitForCompletion (Get_data req)
   \<and> WaitForCompletionTimeout (destroyJobData (Get_data req)) =
       WaitForCompletionTimeout (Get_data req)"
proof -
  let ?data = "Get_data req"
  let ?post = "DoRequest ''POST''
                [getApiEndpoint client, ''job_templates'', Int64_String (DestroyJobTemplateID ?data),
                 ''launch'']
                (fst (CreateRequestBody ?data))"
  have none: "snd (Delete ctx client req) = []"
    if "IsNull (DestroyJobTemplateID ?data) \<or> \<not> 0 <s ValueInt64 (DestroyJobTemplateID ?data)"
    using that by (auto simp: Delete_def Let_def)
  have one: "\<exists>urls. snd (Delete ctx client req) = ?post # map GetRequest urls
      \<and> length urls \<le> attempts ctx (ValueInt64 (WaitForCompletionTimeout ?data) * Second)
      \<and> (ValueBool (WaitForCompletion ?data) \<or> urls = [])"
    if h: "\<not> HasError (Get_diags req)" "\<not> IsNull (DestroyJobTemplateID ?data)"
      "0 <s ValueInt64 (DestroyJobTemplateID ?data)"
  proof -
    obtain launchDiags job calls where
      L: "LaunchJob client (destroyJobData ?data) [] = (launchDiags, job, calls)"
      by (cases "LaunchJob client (destroyJobData ?data) []") auto
    have body: "CreateRequestBody (destroyJobData ?data) = CreateRequestBody ?data"
      by (rule CreateRequestBody_fields) (simp_all add: destroyJobData_def)
    have tid: "GetTemplateID (destroyJobData ?data) = Int64_String (DestroyJobTemplateID ?data)"
      by (simp add: GetTemplateID_def destroyJobData_def)
    have calls: "calls = [?post]"
      using LaunchJob_requests [of client "destroyJobData ?data" "[]"] L
      by (simp add: body tid)
    have wait: "WaitForCompletion job = WaitForCompletion ?data"
      and timeout: "WaitForCompletionTimeout job = WaitForCompletionTimeout ?data"
      using LaunchJob_keeps_wait [of client "destroyJobData ?data" "[]"] L
      by (simp_all add: destroyJobData_def)
    note D = Delete_with_template [OF h L, of ctx]
    show ?thesis
    proof (cases "\<not> HasError launchDiags \<and> ValueBool (WaitForCompletion job)")
      case True
      from waitForJob_requests [of ctx job client "Append (Append [] (Get_diags req)) launchDiags" calls]
      obtain urls where
        u: "length urls \<le> attempts ctx (ValueInt64 (WaitForCompletionTimeout job) * Second)"
          "requests (snd (waitForJob ctx client job (Append (Append [] (Get_diags req)) launchDiags) calls)) =
             calls @ map GetRequest urls"
        by blast
      from True D u(2) have "snd (Delete ctx client req) = ?post # map GetRequest urls"
        by (simp add: calls)
      moreover from u(1) have
        "length urls \<le> attempts ctx (ValueInt64 (WaitForCompletionTimeout ?data) * Second)"
        by (simp add: timeout)
      moreover from True have "ValueBool (WaitForCompletion ?data)" by (simp add: wait)
      ultimately show ?thesis by (intro exI [of _ urls]) simp
    next
      case False
      with D have "snd (Delete ctx client req) = ?post # map GetRequest []"
        by (auto simp: calls)
      then show ?thesis by (intro exI [of _ "[]"]) simp
    qed
  qed
  show ?thesis
    using none one by (simp add: destroyJobData_def)
qed

text \<open>No template and template 0: no request. Template 9: one launch of template 9 with inventory 5.\<close>

theorem C7_Delete_launches_witness:
  "snd (Delete (sample_context 3)
          (sample_client (Some 201, WellFormed (sample_job ''pending''), None) [])
          (sample_state_request ''successful'' False Int64Null)) = []
   \<and> snd (Delete (sample_context 3)
          (sample_client (Some 201, WellFormed (sample_job ''pending''), None) [])
          (sample_state_request ''successful'' False (Int64Value 0))) = []
   \<and> snd (Delete (sample_context 3)
          (sample_client (Some 201, WellFormed (sample_job ''pending''), None) [])
          (sample_state_request ''successful'' False (Int64Value 9))) =
       [DoRequest ''POST'' [''/api/v2'', ''job_templates'', ''9'', ''launch'']
          (Some [(''inventory'', JNumber 5), (''extra_vars'', JString ''a: 1'')])]"
proof -
  let ?client = "(sample_client (Some 201, WellFormed (sample_job ''pending''), None) [])"
  let ?ctx = "sample_context 3"
  let ?R = "\<lambda>d. sample_state_request ''successful'' False d"
  have n: "IsNull (DestroyJobTemplateID (Get_data (?R Int64Null)))
      \<or> \<not> 0 <s ValueInt64 (DestroyJobTemplateID (Get_data (?R Int64Null)))"
    by (simp add: sample_state_request_def sample_state_def)
  from C7_Delete_launches [of "?R Int64Null" ?ctx ?client] n
  have a: "snd (Delete ?ctx ?client (?R Int64Null)) = []" by blast
  have z: "IsNull (DestroyJobTemplateID (Get_data (?R (Int64Value 0))))
      \<or> \<not> 0 <s ValueInt64 (DestroyJobTemplateID (Get_data (?R (Int64Value 0))))"
    by (simp add: sample_state_request_def sample_state_def)
  from C7_Delete_launches [of "?R (Int64Value 0)" ?ctx ?client] z
  have b: "snd (Delete ?ctx ?client (?R (Int64Value 0))) = []" by blast
  have p: "\<not> HasError (Get_diags (?R (Int64Value 9)))
      \<and> \<not> IsNull (DestroyJobTemplateID (Get_data (?R (Int64Value 9))))
      \<and> 0 <s ValueInt64 (DestroyJobTemplateID (Get_data (?R (Int64Value 9))))"
    by (simp add: sample_state_request_def sample_state_def HasError_def sless_0_9)
  have w: "\<not> ValueBool (WaitForCompletion (Get_data (?R (Int64Value 9))))"
    by (simp add: sample_state_request_def sample_state_def)
  from C7_Delete_launches [of "?R (Int64Value 9)" ?ctx ?client] p w
  have "snd (Delete ?ctx ?client (?R (Int64Value 9))) =
      [DoRequest ''POST''
        [getApiEndpoint ?client, ''job_templates'',
         Int64_String (DestroyJobTemplateID (Get_data (?R (Int64Value 9)))), ''launch'']
        (fst (CreateRequestBody (Get_data (?R (Int64Value 9)))))]"
    by auto
  moreover have "getApiEndpoint ?client = ''/api/v2''" by (simp add: sample_client_def)
  moreover have "Int64_String (DestroyJobTemplateID (Get_data (?R (Int64Value 9)))) = ''9''"
    by (simp add: sample_state_request_def sample_state_def Sprintf_d_def digit_def)
  moreover have "fst (CreateRequestBody (Get_data (?R (Int64Value 9)))) =
      Some [(''inventory'', JNumber 5), (''extra_vars'', JString ''a: 1'')]"
    by (simp add: sample_state_request_def sample_state_def CreateRequestBody_def json_Marshal_def)
  ultimately have c: "snd (Delete ?ctx ?client (?R (Int64Value 9))) =
       [DoRequest ''POST'' [''/api/v2'', ''job_templates'', ''9'', ''launch'']
          (Some [(''inventory'', JNumber 5), (''extra_vars'', JString ''a: 1'')])]"
    by (simp only:)
  from a b c show ?thesis by (intro conjI)
qed

text \<open>
  C8. The claim is that \<^verbatim>\<open>Delete\<close> ends without error diagnostics whatever becomes of the
  cleanup job. It does not: a launch answered 500, a launch answered 201 with a malformed
  body, and a wait that times out each leave an error diagnostic.
\<close>

theorem C8_cleanup_failure_is_an_error:
  "HasError (Diagnostics (fst (Delete (sample_context 3)
      (sample_client (Some 500, Malformed ''Internal Server Error'', None) [])
      (sample_state_request ''successful'' False (Int64Value 9)))))
   \<and> HasError (Diagnostics (fst (Delete (sample_context 3)
      (sample_client (Some 201, Malformed ''unexpected end of JSON input'', None) [])
      (sample_state_request ''successful'' False (Int64Value 9)))))
   \<and> HasError (Diagnostics (fst (Delete (sample_context 2)
      (sample_client (Some 201, WellFormed (sample_job ''pending''), None)
         [(WellFormed (sample_job ''running''), None), (WellFormed (sample_job ''running''), None)])
      (sample_state_request ''successful'' True (Int64Value 9)))))"
  by (simp add: delete_defs sless_0_9 eval_nat_numeral)

text \<open>
  C8, amended. With a positive \<^verbatim>\<open>destroy_job_template_id\<close> and the prior state read without
  error, \<^verbatim>\<open>Delete\<close> ends without error diagnostics exactly when the launch left no error
  diagnostic and, if the record asks to wait, the poller ended without error. Which
  terminal status the cleanup job reached plays no part.
\<close>

theorem C8_Delete_outcome:
  assumes "\<not> HasError (Get_diags req)"
    and "\<not> IsNull (DestroyJobTemplateID (Get_data req))"
    and "0 <s ValueInt64 (DestroyJobTemplateID (Get_data req))"
    and "LaunchJob client (destroyJobData (Get_data req)) [] = (launchDiags, job, calls)"
  shows "(\<not> HasError (Diagnostics (fst (Delete ctx client req)))) =
     (\<not> HasError launchDiags \<and>
      (\<not> ValueBool (WaitForCompletion (Get_data req)) \<or>
       fst (waitForJob ctx client job (Append (Append [] (Get_diags req)) launchDiags) calls) = None))"
proof -
  have h0: "\<not> HasError (Append [] (Get_diags req))"
    using assms(1) by (simp add: HasError_Append HasError_Nil)
  have wait: "WaitForCompletion job = WaitForCompletion (Get_data req)"
    using LaunchJob_keeps_wait [of client "destroyJobData (Get_data req)" "[]"] assms(4)
    by (simp add: destroyJobData_def)
  note D = Delete_with_template [OF assms, of ctx]
  show ?thesis
  proof (cases "fst (waitForJob ctx client job (Append (Append [] (Get_diags req)) launchDiags) calls)")
    case None
    with D h0 show ?thesis
      by (simp add: wait HasError_Append del: Append.simps)
  next
    case (Some e)
    with D h0 show ?thesis
      by (simp add: wait HasError_Append HasError_single_error del: Append.simps)
  qed
qed

text \<open>A cleanup job that ends "failed" and one that ends "successful": no error diagnostic either way.\<close>

theorem C8_Delete_outcome_witness:
  "\<not> HasError (Diagnostics (fst (Delete (sample_context 3)
      (sample_client (Some 201, WellFormed (sample_job ''pending''), None)
         [(WellFormed (sample_job ''running''), None), (WellFormed (sample_job ''failed''), None)])
      (sample_state_request ''successful'' True (Int64Value 9)))))
   \<and> \<not> HasError (Diagnostics (fst (Delete (sample_context 3)
      (sample_client (Some 201, WellFormed (sample_job ''pending''), None)
         [(WellFormed (sample_job ''running''), None), (WellFormed (sample_job ''successful''), None)])
      (sample_state_request ''successful'' True (Int64Value 9)))))"
proof -
  have removed: "\<not> HasError (Diagnostics (fst
      (Delete (sample_context 3)
        (sample_client (Some 201, WellFormed (sample_job ''pending''), None)
           [(WellFormed (sample_job ''running''), None), (WellFormed (sample_job st), None)])
        (sample_state_request ''successful'' True (Int64Value 9)))))"
    if t: "IsFinalStateAAPJob st" for st
  proof -
    let ?client = "sample_client (Some 201, WellFormed (sample_job ''pending''), None)
           [(WellFormed (sample_job ''running''), None), (WellFormed (sample_job st), None)]"
    let ?req = "sample_state_request ''successful'' True (Int64Value 9)"
    have h1: "\<not> HasError (Get_diags ?req)"
      by (simp add: sample_state_request_def HasError_def)
    have h2: "\<not> IsNull (DestroyJobTemplateID (Get_data ?req))"
      by (simp add: sample_state_request_def sample_state_def)
    have h3: "0 <s ValueInt64 (DestroyJobTemplateID (Get_data ?req))"
      by (simp add: sample_state_request_def sample_state_def sless_0_9)
    note L = sample_destroy_launch [of "''pending''"
        "[(WellFormed (sample_job ''running''), None), (WellFormed (sample_job st), None)]"
        "''successful''" True]
    from C8_Delete_outcome [OF h1 h2 h3 L, of "sample_context 3"] sample_wait [OF t]
    show ?thesis by (simp add: HasError_Nil)
  qed
  have "IsFinalStateAAPJob ''failed''" "IsFinalStateAAPJob ''successful''"
    by (simp_all add: IsFinalStateAAPJob_def finalStates_def)
  then show ?thesis using removed by blast
qed

section \<open>The launch request body and the ignored fields\<close>

text \<open>
  C9. The request body carries \<open>inventory = 1\<close> when the inventory of the record is null,
  unknown or zero and the inventory of the record otherwise, and the extra variables as
  the string given (the field is left out when the string is empty, as \<^verbatim>\<open>omitempty\<close>
  asks); no diagnostic is made. Inventory 0 gives 1, inventory 5 gives 5.
\<close>

theorem C9_CreateRequestBody:
  "CreateRequestBody r =
     (Some ([(''inventory'',
              JNumber (case InventoryID r of
                         Int64Value v \<Rightarrow> if v = 0 then 1 else sint v
                       | Int64Null \<Rightarrow> 1
                       | Int64Unknown \<Rightarrow> 1))] @
            (case ExtraVars r of
               StringValue s \<Rightarrow> if s = [] then [] else [(''extra_vars'', JString s)]
             | StringNull \<Rightarrow> []
             | StringUnknown \<Rightarrow> [])), [])
   \<and> fst (CreateRequestBody (r\<lparr>InventoryID := Int64Value 0, ExtraVars := StringValue ''a: 1''\<rparr>)) =
       Some [(''inventory'', JNumber 1), (''extra_vars'', JString ''a: 1'')]
   \<and> fst (CreateRequestBody (r\<lparr>InventoryID := Int64Value 5, ExtraVars := StringValue ''a: 1''\<rparr>)) =
       Some [(''inventory'', JNumber 5), (''extra_vars'', JString ''a: 1'')]"
  by (cases "InventoryID r"; cases "ExtraVars r")
     (simp_all add: CreateRequestBody_def json_Marshal_def Let_def)

text \<open>
  C10. The list set by \<^verbatim>\<open>ParseIgnoredFields\<close> is null for the empty map and otherwise the
  keys of the map, each translated through \<^verbatim>\<open>keyMapping\<close> or kept when the table has no
  entry for it, in the order the map is visited; the values play no part, and the list
  is never a known list of length zero. The map with the one key "inventory" gives
  ["inventory"]. The table maps its one key to itself.
\<close>

theorem C10_ParseIgnoredFields:
  "IgnoredFields (fst (ParseIgnoredFields r m)) =
     (if m = [] then ListNull
      else ListValue (map (\<lambda>k. StringValue (case keyMapping k of Some v \<Rightarrow> v | None \<Rightarrow> k)) (map fst m)))
   \<and> IgnoredFields (fst (ParseIgnoredFields r m)) \<noteq> ListValue []
   \<and> IgnoredFields (fst (ParseIgnoredFields r [(''inventory'', x)])) = ListValue [StringValue ''inventory'']
   \<and> IgnoredFields (fst (ParseIgnoredFields r [])) = ListNull
   \<and> (case keyMapping k of Some v \<Rightarrow> v | None \<Rightarrow> k) = k
   \<and> snd (ParseIgnoredFields r m) = []"
  by (simp add: ParseIgnoredFields_def keysList_loop_map keyMapping_id Let_def)

end
